theory Spec2Isabelle
  imports Main
begin

section \<open>Python values, exceptions and effects\<close>

text \<open>
  The encrypted parameter store of parci (\<^verbatim>\<open>parci/internals/parameter_store\<close>,
  \<^verbatim>\<open>parci/internals/storage.py\<close>, \<^verbatim>\<open>parci/config.py\<close>) as a shallow embedding.
  Python \<^verbatim>\<open>str\<close> and \<^verbatim>\<open>bytes\<close> are both character lists; the Python objects that
  flow through the store are the values of \<open>pyval\<close>.
\<close>

type_synonym bytes = string

datatype pyval =
    PNone
  | PBool bool
  | PInt int
  | PStr string
  | PBytes bytes
  | PList "pyval list"
  | PDict "(string \<times> pyval) list"

text \<open>One constructor per Python exception class that the modelled code can raise.\<close>

datatype error =
    KeyError string
  | ValueError string
  | TypeError
  | IndexError
  | AttributeError
  | EOFError
  | CryptoError
  | BinasciiError
  | JSONDecodeError
  | InterfaceError
  | KeyringError
  | DeviceError
  | ParameterStoreException string
  | SSMParameterStoreException string

text \<open>Interactions with the outside world, recorded in the order they happen.\<close>

datatype event =
    Prompt string
  | Connect string
  | KeyringGet
  | KeyringSet
  | ListDevices
  | Challenge

subsection \<open>The libraries the code calls\<close>

text \<open>
  PyNaCl, \<^verbatim>\<open>json\<close>, \<^verbatim>\<open>base64\<close> and \<^verbatim>\<open>unicodedata\<close> are not code of this repository.
  Their pure functions are the fields of \<open>ext\<close>; every definition of the store takes
  them as the parameter \<open>E\<close>.
  \<^item> \<open>json_dumps\<close>: \<^verbatim>\<open>json.dumps\<close>, \<open>None\<close> when it raises \<^verbatim>\<open>TypeError\<close>;
  \<^item> \<open>json_loads\<close>: \<^verbatim>\<open>json.loads\<close> of a \<^verbatim>\<open>str\<close>, \<open>None\<close> when it raises;
  \<^item> \<open>b64encode\<close>: \<^verbatim>\<open>base64.b64encode(b).decode("ascii")\<close>;
  \<^item> \<open>b64decode\<close>: \<^verbatim>\<open>base64.b64decode\<close>, \<open>None\<close> when it raises;
  \<^item> \<open>utf8\<close>, \<open>utf8_decode\<close>: \<^verbatim>\<open>str.encode("utf-8")\<close> and its inverse;
  \<^item> \<open>nfkc\<close>: \<^verbatim>\<open>unicodedata.normalize("NFKC", s)\<close>;
  \<^item> \<open>seal\<close>, \<open>unseal\<close>: the secretbox primitive under a key (message and nonce in,
    nonce and ciphertext out; \<open>None\<close> when authentication fails);
  \<^item> \<open>blake2b_hex\<close>: \<^verbatim>\<open>nacl.hash.blake2b(data, key=k, encoder=HexEncoder).decode("ascii")\<close>;
  \<^item> \<open>argon2id_kdf\<close>: \<^verbatim>\<open>nacl.pwhash.argon2id.kdf\<close>, \<open>None\<close> when it raises.
\<close>

record ext =
  json_dumps :: "pyval \<Rightarrow> string option"
  json_loads :: "string \<Rightarrow> pyval option"
  b64encode :: "bytes \<Rightarrow> string"
  b64decode :: "string \<Rightarrow> bytes option"
  utf8 :: "string \<Rightarrow> bytes"
  utf8_decode :: "bytes \<Rightarrow> string option"
  nfkc :: "string \<Rightarrow> string"
  seal :: "bytes \<Rightarrow> bytes \<Rightarrow> bytes \<Rightarrow> bytes"
  unseal :: "bytes \<Rightarrow> bytes \<Rightarrow> bytes option"
  blake2b_hex :: "bytes \<Rightarrow> bytes \<Rightarrow> string"
  argon2id_kdf :: "int \<Rightarrow> bytes \<Rightarrow> bytes \<Rightarrow> int \<Rightarrow> int \<Rightarrow> bytes option"

text \<open>A YubiKey as \<^verbatim>\<open>ykman.device.list_all_devices()\<close> lists it: its serial number and
  the HMAC-SHA1 challenge-response of its OTP slots (\<open>None\<close> when the device fails).\<close>

record yubikey =
  serial :: "int option"
  calculate_hmac_sha1 :: "int \<Rightarrow> bytes \<Rightarrow> bytes option"

subsection \<open>The objects of the store\<close>

text \<open>The fields of a \<^verbatim>\<open>SqliteKV\<close> and of a local \<^verbatim>\<open>ParameterStore\<close> (\<^verbatim>\<open>_name_key\<close>,
  \<^verbatim>\<open>_value_key\<close>), the \<^verbatim>\<open>prefix\<close> of an \<^verbatim>\<open>SSMParameterStore\<close>, and the two kinds of
  backend the interceptor can hold in \<^verbatim>\<open>_ps\<close>.\<close>

record SqliteKV =
  table :: string
  serialize_values :: bool

record ParameterStore =
  kv :: SqliteKV
  name_key :: bytes
  value_key :: bytes

datatype backend = Local ParameterStore | SSM string

subsection \<open>The process and its surroundings\<close>

text \<open>
  \<open>tkv\<close> holds the rows \<open>(table_name, key, value)\<close> of the SQLite table \<^verbatim>\<open>tkv\<close> in the
  file \<^verbatim>\<open>config.PARAMETER_DB\<close>; \<open>keyring_entry\<close> is the OS keyring's password for
  service \<^verbatim>\<open>parci\<close>, account \<^verbatim>\<open>parci\<close>, and \<open>keyring_usable\<close> tells whether a keyring
  backend accepts calls; \<open>devices\<close> are the attached YubiKeys; \<open>ssm\<close> are the parameters of
  the AWS account; \<open>tty\<close> are the lines the operator will type at the coming \<^verbatim>\<open>getpass\<close>
  prompts; \<open>params_ps\<close> is the field \<^verbatim>\<open>_ps\<close> of the module's interceptor object
  \<^verbatim>\<open>params\<close>; the \<open>PARAMETER_\<close> fields are the module globals of \<^verbatim>\<open>parci/config.py\<close>.
\<close>

record world =
  tkv :: "(string \<times> string \<times> pyval) list"
  keyring_entry :: "string option"
  keyring_usable :: bool
  devices :: "yubikey list"
  ssm :: "(string \<times> string) list"
  tty :: "string list"
  trace :: "event list"
  params_ps :: "backend option"
  PARAMETER_DRIVER :: string
  PARAMETER_DB :: string
  PARAMETER_DB_PASSWORD :: "string option"
  PARAMETER_READ_ONLY :: bool

text \<open>\<^verbatim>\<open>config.py\<close> as imported: the environment decides the driver, the database path and
  the password; \<^verbatim>\<open>PARAMETER_READ_ONLY = True\<close> is fixed.\<close>

definition import_config ::
  "string option \<Rightarrow> string \<Rightarrow> string option \<Rightarrow> world \<Rightarrow> world" where
  "import_config env_driver db_path env_password w =
     w\<lparr>PARAMETER_DRIVER := (case env_driver of None \<Rightarrow> ''local'' | Some d \<Rightarrow> d),
       PARAMETER_DB := db_path,
       PARAMETER_DB_PASSWORD := env_password,
       PARAMETER_READ_ONLY := True\<rparr>"

text \<open>A statement either returns a value or raises, and leaves a world behind in both cases.\<close>

type_synonym 'a io = "world \<Rightarrow> (error + 'a) \<times> world"

definition io_return :: "'a \<Rightarrow> 'a io" where
  "io_return x w = (Inr x, w)"

definition io_raise :: "error \<Rightarrow> 'a io" where
  "io_raise e w = (Inl e, w)"

definition io_lift :: "error + 'a \<Rightarrow> 'a io" where
  "io_lift r w = (r, w)"

definition io_bind :: "'a io \<Rightarrow> ('a \<Rightarrow> 'b io) \<Rightarrow> 'b io" where
  "io_bind m f w = (case m w of (Inl e, w') \<Rightarrow> (Inl e, w') | (Inr x, w') \<Rightarrow> f x w')"

definition log_event :: "event \<Rightarrow> unit io" where
  "log_event ev w = (Inr (), w\<lparr>trace := trace w @ [ev]\<rparr>)"

text \<open>\<^verbatim>\<open>getpass.getpass(prompt)\<close>: the next typed line, \<^verbatim>\<open>EOFError\<close> at end of input.\<close>

definition getpass :: "string \<Rightarrow> string io" where
  "getpass prompt w =
     (case tty w of
        [] \<Rightarrow> (Inl EOFError, w\<lparr>trace := trace w @ [Prompt prompt]\<rparr>)
      | l # ls \<Rightarrow> (Inr l, w\<lparr>tty := ls, trace := trace w @ [Prompt prompt]\<rparr>))"

section \<open>\<^verbatim>\<open>parci/internals/utils.py\<close>\<close>

definition encode_bytes :: "ext \<Rightarrow> bytes \<Rightarrow> string" where
  "encode_bytes E b = b64encode E b"

definition decode_bytes :: "ext \<Rightarrow> pyval \<Rightarrow> error + bytes" where
  "decode_bytes E s =
     (case s of
        PStr t \<Rightarrow> (case b64decode E t of None \<Rightarrow> Inl BinasciiError | Some b \<Rightarrow> Inr b)
      | PBytes t \<Rightarrow> (case b64decode E t of None \<Rightarrow> Inl BinasciiError | Some b \<Rightarrow> Inr b)
      | _ \<Rightarrow> Inl TypeError)"

section \<open>\<^verbatim>\<open>parci/internals/storage.py\<close>: \<^verbatim>\<open>SqliteKV\<close>\<close>

text \<open>The rows a \<^verbatim>\<open>WHERE table_name = ? AND key = ?\<close> selects, and the upsert of
  \<^verbatim>\<open>INSERT ... ON CONFLICT DO UPDATE SET value = ?\<close> under the table's
  \<^verbatim>\<open>UNIQUE (table_name, key)\<close>.\<close>

definition row_matches :: "string \<Rightarrow> string \<Rightarrow> string \<times> string \<times> pyval \<Rightarrow> bool" where
  "row_matches t k r = (fst r = t \<and> fst (snd r) = k)"

definition select_values :: "(string \<times> string \<times> pyval) list \<Rightarrow> string \<Rightarrow> string \<Rightarrow> pyval list" where
  "select_values rows t k = map (\<lambda>r. snd (snd r)) (filter (row_matches t k) rows)"

definition upsert ::
  "(string \<times> string \<times> pyval) list \<Rightarrow> string \<Rightarrow> string \<Rightarrow> pyval \<Rightarrow> (string \<times> string \<times> pyval) list" where
  "upsert rows t k v =
     (if filter (row_matches t k) rows = [] then rows @ [(t, k, v)]
      else map (\<lambda>r. if row_matches t k r then (t, k, v) else r) rows)"

definition delete_rows ::
  "(string \<times> string \<times> pyval) list \<Rightarrow> string \<Rightarrow> string \<Rightarrow> (string \<times> string \<times> pyval) list" where
  "delete_rows rows t k = filter (\<lambda>r. \<not> row_matches t k r) rows"

text \<open>What \<^verbatim>\<open>sqlite3\<close> binds as a parameter: \<^verbatim>\<open>None\<close>, numbers, \<^verbatim>\<open>str\<close> and \<^verbatim>\<open>bytes\<close>.\<close>

definition sqlite_bind :: "pyval \<Rightarrow> error + pyval" where
  "sqlite_bind v =
     (case v of PList _ \<Rightarrow> Inl InterfaceError | PDict _ \<Rightarrow> Inl InterfaceError | _ \<Rightarrow> Inr v)"

text \<open>\<^verbatim>\<open>json.loads\<close> of a stored cell or a decrypted message: a \<^verbatim>\<open>str\<close> is parsed, \<^verbatim>\<open>bytes\<close> are
  decoded as UTF-8 first, anything else is a \<^verbatim>\<open>TypeError\<close>.\<close>

definition py_json_loads :: "ext \<Rightarrow> pyval \<Rightarrow> error + pyval" where
  "py_json_loads E v =
     (case v of
        PStr s \<Rightarrow> (case json_loads E s of None \<Rightarrow> Inl JSONDecodeError | Some j \<Rightarrow> Inr j)
      | PBytes b \<Rightarrow>
          (case utf8_decode E b of
             None \<Rightarrow> Inl JSONDecodeError
           | Some s \<Rightarrow> (case json_loads E s of None \<Rightarrow> Inl JSONDecodeError | Some j \<Rightarrow> Inr j))
      | _ \<Rightarrow> Inl TypeError)"

definition py_json_dumps :: "ext \<Rightarrow> pyval \<Rightarrow> error + string" where
  "py_json_dumps E v = (case json_dumps E v of None \<Rightarrow> Inl TypeError | Some s \<Rightarrow> Inr s)"

text \<open>\<^verbatim>\<open>SqliteKV.__init__\<close>: connect, set the pragmas, create the table if it is missing
  (no row changes), commit.\<close>

definition SqliteKV_init :: "string \<Rightarrow> string \<Rightarrow> bool \<Rightarrow> SqliteKV io" where
  "SqliteKV_init db t ser =
     io_bind (log_event (Connect db)) (\<lambda>_.
     io_return \<lparr>table = t, serialize_values = ser\<rparr>)"

definition kv_getitem :: "ext \<Rightarrow> SqliteKV \<Rightarrow> string \<Rightarrow> pyval io" where
  "kv_getitem E self item w =
     (case select_values (tkv w) (table self) item of
        [] \<Rightarrow> (Inl (KeyError ''Key does not exist''), w)
      | v # _ \<Rightarrow> (if serialize_values self then (py_json_loads E v, w) else (Inr v, w)))"

definition kv_setitem :: "ext \<Rightarrow> SqliteKV \<Rightarrow> string \<Rightarrow> pyval \<Rightarrow> pyval io" where
  "kv_setitem E self item val =
     io_bind (if serialize_values self
              then io_lift (map_sum id PStr (py_json_dumps E val))
              else io_return val) (\<lambda>val'.
     io_bind (io_lift (sqlite_bind val')) (\<lambda>cell.
     io_bind (\<lambda>w. (Inr (), w\<lparr>tkv := upsert (tkv w) (table self) item cell\<rparr>)) (\<lambda>_.
     io_return val')))"

definition kv_delitem :: "SqliteKV \<Rightarrow> string \<Rightarrow> unit io" where
  "kv_delitem self k w = (Inr (), w\<lparr>tkv := delete_rows (tkv w) (table self) k\<rparr>)"

definition kv_contains :: "SqliteKV \<Rightarrow> string \<Rightarrow> bool io" where
  "kv_contains self item w = (Inr (select_values (tkv w) (table self) item \<noteq> []), w)"



section \<open>\<^verbatim>\<open>parci/internals/parameter_store/local\<close>: \<^verbatim>\<open>ParameterStore\<close>\<close>

text \<open>Constants of PyNaCl: \<^verbatim>\<open>SecretBox.KEY_SIZE\<close>, \<^verbatim>\<open>SecretBox.NONCE_SIZE\<close>,
  \<^verbatim>\<open>pwhash.argon2id.SALTBYTES\<close>, \<^verbatim>\<open>OPSLIMIT_SENSITIVE\<close>, \<^verbatim>\<open>MEMLIMIT_SENSITIVE\<close>.\<close>

definition KEY_SIZE :: nat where "KEY_SIZE = 32"
definition NONCE_SIZE :: nat where "NONCE_SIZE = 24"
definition SALTBYTES :: nat where "SALTBYTES = 16"
definition OPSLIMIT_SENSITIVE :: int where "OPSLIMIT_SENSITIVE = 4"
definition MEMLIMIT_SENSITIVE :: int where "MEMLIMIT_SENSITIVE = 1073741824"

text \<open>\<^verbatim>\<open>SecretBox(key)\<close> rejects a key that is not \<^verbatim>\<open>KEY_SIZE\<close> bytes long; \<^verbatim>\<open>box.encrypt\<close>
  rejects a nonce that is not \<^verbatim>\<open>NONCE_SIZE\<close> bytes long; \<^verbatim>\<open>box.decrypt\<close> raises
  \<^verbatim>\<open>CryptoError\<close> when the message does not authenticate under the key.\<close>

definition SecretBox :: "bytes \<Rightarrow> error + bytes" where
  "SecretBox key =
     (if length key = KEY_SIZE then Inr key
      else Inl (ValueError ''The key must be exactly 32 bytes long''))"

definition box_encrypt :: "ext \<Rightarrow> bytes \<Rightarrow> bytes \<Rightarrow> bytes \<Rightarrow> error + bytes" where
  "box_encrypt E box plaintext nonce =
     (if length nonce = NONCE_SIZE then Inr (seal E box plaintext nonce)
      else Inl (ValueError ''The nonce must be exactly 24 bytes long''))"

definition box_decrypt :: "ext \<Rightarrow> bytes \<Rightarrow> bytes \<Rightarrow> error + bytes" where
  "box_decrypt E box ciphertext =
     (case unseal E box ciphertext of None \<Rightarrow> Inl CryptoError | Some m \<Rightarrow> Inr m)"

definition ParameterStore_init :: "string \<Rightarrow> bytes \<Rightarrow> bytes \<Rightarrow> ParameterStore io" where
  "ParameterStore_init db nk vk =
     io_bind (SqliteKV_init db ''params'' False) (\<lambda>k.
     io_return \<lparr>kv = k, name_key = nk, value_key = vk\<rparr>)"

definition calc_key :: "ext \<Rightarrow> ParameterStore \<Rightarrow> pyval \<Rightarrow> error + string" where
  "calc_key E ps item =
     (case py_json_dumps E item of
        Inl e \<Rightarrow> Inl e
      | Inr s \<Rightarrow> Inr (blake2b_hex E (utf8 E s) (name_key ps)))"

text \<open>\<^verbatim>\<open>json.loads(value)[1]\<close>: the second element of a list, the second character of a
  string; a dictionary has no key \<^verbatim>\<open>1\<close>, other values are not subscriptable.\<close>

definition py_index1 :: "pyval \<Rightarrow> error + pyval" where
  "py_index1 v =
     (case v of
        PList xs \<Rightarrow> (if 1 < length xs then Inr (xs ! 1) else Inl IndexError)
      | PStr s \<Rightarrow> (if 1 < length s then Inr (PStr [s ! 1]) else Inl IndexError)
      | PDict _ \<Rightarrow> Inl (KeyError ''1'')
      | _ \<Rightarrow> Inl TypeError)"

definition ps_getitem :: "ext \<Rightarrow> ParameterStore \<Rightarrow> pyval \<Rightarrow> pyval io" where
  "ps_getitem E ps item =
     io_bind (io_lift (calc_key E ps item)) (\<lambda>db_key.
     io_bind (io_lift (SecretBox (value_key ps))) (\<lambda>box.
     io_bind (kv_getitem E (kv ps) db_key) (\<lambda>val.
     io_bind (io_lift (decode_bytes E val)) (\<lambda>val.
     io_bind (io_lift (box_decrypt E box val)) (\<lambda>val.
     io_bind (io_lift (py_json_loads E (PBytes val))) (\<lambda>j.
     io_lift (py_index1 j)))))))"

text \<open>\<^verbatim>\<open>__setitem__\<close> draws its nonce from \<^verbatim>\<open>nacl.utils.random\<close>; the drawn bytes are the
  argument \<open>nonce\<close>.\<close>

definition ps_setitem :: "ext \<Rightarrow> ParameterStore \<Rightarrow> bytes \<Rightarrow> pyval \<Rightarrow> pyval \<Rightarrow> unit io" where
  "ps_setitem E ps nonce item val w =
     (if PARAMETER_READ_ONLY w then (Inl (KeyError ''ParameterStore is read-only''), w)
      else
       (io_bind (io_lift (calc_key E ps item)) (\<lambda>db_key.
        io_bind (io_lift (SecretBox (value_key ps))) (\<lambda>box.
        io_bind (io_lift (py_json_dumps E (PList [item, val]))) (\<lambda>s.
        io_bind (io_lift (box_encrypt E box (utf8 E s) nonce)) (\<lambda>c.
        io_bind (kv_setitem E (kv ps) db_key (PStr (encode_bytes E c))) (\<lambda>_.
        io_return ())))))) w)"

definition ps_delitem :: "ext \<Rightarrow> ParameterStore \<Rightarrow> pyval \<Rightarrow> unit io" where
  "ps_delitem E ps item w =
     (if PARAMETER_READ_ONLY w then (Inl (KeyError ''ParameterStore is read-only''), w)
      else
       (io_bind (io_lift (calc_key E ps item)) (\<lambda>db_key.
        kv_delitem (kv ps) db_key)) w)"

definition ps_contains :: "ext \<Rightarrow> ParameterStore \<Rightarrow> pyval \<Rightarrow> bool io" where
  "ps_contains E ps item =
     io_bind (io_lift (calc_key E ps item)) (\<lambda>db_key.
     kv_contains (kv ps) db_key)"









section \<open>Unlock records: \<^verbatim>\<open>encrypt/password.py\<close> and \<^verbatim>\<open>init\<close>\<close>

text \<open>Subscripting a dictionary read from the config table, and assigning to one of its
  keys.\<close>

definition dict_getitem :: "pyval \<Rightarrow> string \<Rightarrow> error + pyval" where
  "dict_getitem d k =
     (case d of
        PDict kvs \<Rightarrow> (case map_of kvs k of None \<Rightarrow> Inl (KeyError k) | Some v \<Rightarrow> Inr v)
      | _ \<Rightarrow> Inl TypeError)"

definition dict_setitem :: "pyval \<Rightarrow> string \<Rightarrow> pyval \<Rightarrow> error + pyval" where
  "dict_setitem d k v =
     (case d of
        PDict kvs \<Rightarrow>
          Inr (PDict (if map_of kvs k = None then kvs @ [(k, v)]
                      else map (\<lambda>p. if fst p = k then (k, v) else p) kvs))
      | _ \<Rightarrow> Inl TypeError)"

text \<open>\<^verbatim>\<open>for key in (...): cfg[key] = decode_bytes(cfg[key])\<close>.\<close>

fun decode_fields :: "ext \<Rightarrow> string list \<Rightarrow> pyval \<Rightarrow> error + pyval" where
  "decode_fields E [] cfg = Inr cfg"
| "decode_fields E (k # ks) cfg =
     (case dict_getitem cfg k of
        Inl e \<Rightarrow> Inl e
      | Inr v \<Rightarrow>
          (case decode_bytes E v of
             Inl e \<Rightarrow> Inl e
           | Inr b \<Rightarrow>
               (case dict_setitem cfg k (PBytes b) of
                  Inl e \<Rightarrow> Inl e
                | Inr cfg' \<Rightarrow> decode_fields E ks cfg')))"

text \<open>Arguments that the PyNaCl bindings require to be \<^verbatim>\<open>bytes\<close> or \<^verbatim>\<open>int\<close>.\<close>

definition as_bytes :: "pyval \<Rightarrow> error + bytes" where
  "as_bytes v = (case v of PBytes b \<Rightarrow> Inr b | _ \<Rightarrow> Inl TypeError)"

definition as_int :: "pyval \<Rightarrow> error + int" where
  "as_int v =
     (case v of PInt i \<Rightarrow> Inr i | PBool b \<Rightarrow> Inr (if b then 1 else 0) | _ \<Rightarrow> Inl TypeError)"

text \<open>Sequencing of steps that only compute: the first exception ends the sequence.\<close>

definition and_then :: "error + 'a \<Rightarrow> ('a \<Rightarrow> error + 'b) \<Rightarrow> error + 'b" where
  "and_then r f = (case r of Inl e \<Rightarrow> Inl e | Inr x \<Rightarrow> f x)"

definition get_user_decrypt_key ::
  "ext \<Rightarrow> bytes \<Rightarrow> bytes \<Rightarrow> int \<Rightarrow> int \<Rightarrow> int \<Rightarrow> error + bytes" where
  "get_user_decrypt_key E password salt keysize opslimit memlimit =
     (case argon2id_kdf E keysize password salt opslimit memlimit of
        None \<Rightarrow> Inl (ValueError ''argon2id'')
      | Some k \<Rightarrow> Inr k)"

text \<open>\<^verbatim>\<open>box.decrypt(cfg["name_key"]), box.decrypt(cfg["value_key"])\<close>, the tuple that the
  three \<^verbatim>\<open>get_keys_by_\<close> functions return.\<close>

definition decrypt_key_pair :: "ext \<Rightarrow> bytes \<Rightarrow> pyval \<Rightarrow> error + bytes \<times> bytes" where
  "decrypt_key_pair E box cfg =
     and_then (dict_getitem cfg ''name_key'') (\<lambda>c1.
     and_then (as_bytes c1) (\<lambda>c1.
     and_then (box_decrypt E box c1) (\<lambda>nk.
     and_then (dict_getitem cfg ''value_key'') (\<lambda>c2.
     and_then (as_bytes c2) (\<lambda>c2.
     and_then (box_decrypt E box c2) (\<lambda>vk.
     Inr (nk, vk)))))))"

definition password_kek :: "ext \<Rightarrow> string \<Rightarrow> pyval \<Rightarrow> error + bytes" where
  "password_kek E password cfg =
     and_then (dict_getitem cfg ''salt'') (\<lambda>salt.
     and_then (as_bytes salt) (\<lambda>salt.
     and_then (dict_getitem cfg ''keysize'') (\<lambda>keysize.
     and_then (as_int keysize) (\<lambda>keysize.
     and_then (dict_getitem cfg ''opslimit'') (\<lambda>opslimit.
     and_then (as_int opslimit) (\<lambda>opslimit.
     and_then (dict_getitem cfg ''memlimit'') (\<lambda>memlimit.
     and_then (as_int memlimit) (\<lambda>memlimit.
     get_user_decrypt_key E (utf8 E (nfkc E password)) salt keysize opslimit memlimit))))))))"

definition get_keys_by_password :: "ext \<Rightarrow> string option \<Rightarrow> (bytes \<times> bytes) io" where
  "get_keys_by_password E password =
     io_bind (\<lambda>w. SqliteKV_init (PARAMETER_DB w) ''config'' True w) (\<lambda>config_db.
     io_bind (kv_getitem E config_db ''password'') (\<lambda>password_config.
     io_bind (io_lift (decode_fields E [''salt'', ''name_key'', ''value_key''] password_config))
       (\<lambda>password_config.
     io_bind (case password of None \<Rightarrow> getpass ''Password: '' | Some p \<Rightarrow> io_return p)
       (\<lambda>password.
     io_bind (io_lift (password_kek E password password_config)) (\<lambda>decrypt_key.
     io_bind (io_lift (SecretBox decrypt_key)) (\<lambda>box.
     io_lift (decrypt_key_pair E box password_config)))))))"

text \<open>\<^verbatim>\<open>init\<close> draws a salt, the two store keys and their nonces from
  \<^verbatim>\<open>nacl.utils.random\<close>: the arguments \<open>salt\<close>, \<open>params_name_key\<close>, \<open>params_name_nonce\<close>,
  \<open>params_value_key\<close>, \<open>params_value_nonce\<close>.\<close>

definition password_record :: "ext \<Rightarrow> bytes \<Rightarrow> bytes \<Rightarrow> bytes \<Rightarrow> pyval" where
  "password_record E salt enc_name_key enc_value_key =
     PDict [(''salt'', PStr (encode_bytes E salt)),
            (''keysize'', PInt (int KEY_SIZE)),
            (''opslimit'', PInt OPSLIMIT_SENSITIVE),
            (''memlimit'', PInt MEMLIMIT_SENSITIVE),
            (''name_key'', PStr (encode_bytes E enc_name_key)),
            (''value_key'', PStr (encode_bytes E enc_value_key))]"


section \<open>The keyring unlock method\<close>

text \<open>\<^verbatim>\<open>keyring.set_password("parci", "parci", s)\<close> and \<^verbatim>\<open>keyring.get_password("parci", "parci")\<close>;
  without a usable backend both raise, and a missing entry reads as \<^verbatim>\<open>None\<close>.\<close>

definition keyring_set_password :: "string \<Rightarrow> unit io" where
  "keyring_set_password s w =
     (if keyring_usable w
      then (Inr (), w\<lparr>keyring_entry := Some s, trace := trace w @ [KeyringSet]\<rparr>)
      else (Inl KeyringError, w\<lparr>trace := trace w @ [KeyringSet]\<rparr>))"

definition keyring_get_password :: "pyval io" where
  "keyring_get_password w =
     (if keyring_usable w
      then (Inr (case keyring_entry w of None \<Rightarrow> PNone | Some s \<Rightarrow> PStr s),
            w\<lparr>trace := trace w @ [KeyringGet]\<rparr>)
      else (Inl KeyringError, w\<lparr>trace := trace w @ [KeyringGet]\<rparr>))"

definition keyring_record :: "ext \<Rightarrow> bytes \<Rightarrow> bytes \<Rightarrow> pyval" where
  "keyring_record E enc_name_key enc_value_key =
     PDict [(''name_key'', PStr (encode_bytes E enc_name_key)),
            (''value_key'', PStr (encode_bytes E enc_value_key))]"

text \<open>\<^verbatim>\<open>register_keyring\<close> draws the wrapping key and two nonces from \<^verbatim>\<open>nacl.utils.random\<close>:
  the arguments \<open>key\<close>, \<open>name_nonce\<close>, \<open>value_nonce\<close>. The \<^verbatim>\<open>keyring\<close> module is taken to be
  installed, so that its import at the head of the function succeeds.\<close>

definition register_keyring :: "ext \<Rightarrow> bytes \<Rightarrow> bytes \<Rightarrow> bytes \<Rightarrow> unit io" where
  "register_keyring E key name_nonce value_nonce =
     io_bind (get_keys_by_password E None) (\<lambda>keys.
     io_bind (io_return (encode_bytes E key)) (\<lambda>keystr.
     io_bind (io_lift (SecretBox key)) (\<lambda>box.
     io_bind (io_lift (box_encrypt E box (fst keys) name_nonce)) (\<lambda>enc_name_key.
     io_bind (io_lift (box_encrypt E box (snd keys) value_nonce)) (\<lambda>enc_value_key.
     io_bind (\<lambda>w. SqliteKV_init (PARAMETER_DB w) ''config'' True w) (\<lambda>config_db.
     io_bind (kv_setitem E config_db ''keyring''
                (keyring_record E enc_name_key enc_value_key)) (\<lambda>_.
     io_bind (keyring_set_password keystr) (\<lambda>_.
     io_bind (kv_setitem E config_db ''default-open-method'' (PStr ''keyring'')) (\<lambda>_.
     io_return ())))))))))"

definition get_keys_by_keyring :: "ext \<Rightarrow> (bytes \<times> bytes) io" where
  "get_keys_by_keyring E =
     io_bind (\<lambda>w. SqliteKV_init (PARAMETER_DB w) ''config'' True w) (\<lambda>config_db.
     io_bind (kv_getitem E config_db ''keyring'') (\<lambda>kr_config.
     io_bind (io_lift (decode_fields E [''name_key'', ''value_key''] kr_config)) (\<lambda>kr_config.
     io_bind keyring_get_password (\<lambda>decrypt_keystr.
     io_bind (io_lift (decode_bytes E decrypt_keystr)) (\<lambda>decrypt_key.
     io_bind (io_lift (SecretBox decrypt_key)) (\<lambda>box.
     io_lift (decrypt_key_pair E box kr_config)))))))"

section \<open>The YubiKey unlock method: \<^verbatim>\<open>encrypt/yubikey.py\<close>\<close>

text \<open>Python's \<^verbatim>\<open>str\<close> of an integer, for the f-string \<^verbatim>\<open>f"yubikey:{serial}"\<close>; a device
  without a serial number has \<^verbatim>\<open>info.serial = None\<close>.\<close>

function str_digits :: "int \<Rightarrow> string" where
  "str_digits i =
     (if i < 10 then [char_of (48 + nat i)]
      else str_digits (i div 10) @ [char_of (48 + nat (i mod 10))])"
  by pat_completeness auto
termination
  by (relation "measure nat") auto

declare str_digits.simps [simp del]

definition str_nat :: "nat \<Rightarrow> string" where
  "str_nat n = str_digits (int n)"

definition str_int :: "int \<Rightarrow> string" where
  "str_int i = (if i < 0 then CHR ''-'' # str_digits (- i) else str_digits i)"

definition yubikey_record_name :: "int option \<Rightarrow> string" where
  "yubikey_record_name s = ''yubikey:'' @ (case s of None \<Rightarrow> ''None'' | Some i \<Rightarrow> str_int i)"

text \<open>\<^verbatim>\<open>ykman.device.list_all_devices()[0]\<close>.\<close>

definition first_device :: "yubikey io" where
  "first_device w =
     (case devices w of
        [] \<Rightarrow> (Inl IndexError, w\<lparr>trace := trace w @ [ListDevices]\<rparr>)
      | d # _ \<Rightarrow> (Inr d, w\<lparr>trace := trace w @ [ListDevices]\<rparr>))"

text \<open>The OTP slots of \<^verbatim>\<open>yubikit.yubiotp.SLOT\<close> are \<open>1\<close> and \<open>2\<close>; \<^verbatim>\<open>SLOT(x)\<close> of anything else
  is a \<^verbatim>\<open>ValueError\<close>.\<close>

definition SLOT :: "pyval \<Rightarrow> error + int" where
  "SLOT v =
     (case as_int v of
        Inl _ \<Rightarrow> Inl (ValueError ''not a valid SLOT'')
      | Inr i \<Rightarrow> (if i = 1 \<or> i = 2 then Inr i else Inl (ValueError ''not a valid SLOT'')))"

definition get_yubikey_decrypt_key ::
  "ext \<Rightarrow> yubikey \<Rightarrow> int \<Rightarrow> bytes \<Rightarrow> bytes \<Rightarrow> int \<Rightarrow> int \<Rightarrow> int \<Rightarrow> bytes io" where
  "get_yubikey_decrypt_key E device slot challenge salt keysize opslimit memlimit =
     io_bind (log_event Challenge) (\<lambda>_.
     io_bind (io_lift (case calculate_hmac_sha1 device slot challenge of
                         None \<Rightarrow> Inl DeviceError | Some r \<Rightarrow> Inr r)) (\<lambda>response.
     io_lift (case argon2id_kdf E keysize response salt opslimit memlimit of
                None \<Rightarrow> Inl (ValueError ''argon2id'')
              | Some k \<Rightarrow> Inr k)))"

definition yubikey_record :: "ext \<Rightarrow> int \<Rightarrow> bytes \<Rightarrow> bytes \<Rightarrow> bytes \<Rightarrow> bytes \<Rightarrow> pyval" where
  "yubikey_record E slot challenge salt enc_name_key enc_value_key =
     PDict [(''slot'', PInt slot),
            (''challenge'', PStr (encode_bytes E challenge)),
            (''salt'', PStr (encode_bytes E salt)),
            (''keysize'', PInt (int KEY_SIZE)),
            (''opslimit'', PInt OPSLIMIT_SENSITIVE),
            (''memlimit'', PInt MEMLIMIT_SENSITIVE),
            (''name_key'', PStr (encode_bytes E enc_name_key)),
            (''value_key'', PStr (encode_bytes E enc_value_key))]"

text \<open>\<^verbatim>\<open>register_yubikey(slot)\<close> draws a challenge, a salt and two nonces from
  \<^verbatim>\<open>nacl.utils.random\<close>: the arguments \<open>challenge\<close>, \<open>salt\<close>, \<open>name_nonce\<close>, \<open>value_nonce\<close>.\<close>

definition register_yubikey :: "ext \<Rightarrow> int \<Rightarrow> bytes \<Rightarrow> bytes \<Rightarrow> bytes \<Rightarrow> bytes \<Rightarrow> unit io" where
  "register_yubikey E slot challenge salt name_nonce value_nonce =
     io_bind (get_keys_by_password E None) (\<lambda>keys.
     io_bind first_device (\<lambda>device.
     io_bind (get_yubikey_decrypt_key E device slot challenge salt
                (int KEY_SIZE) OPSLIMIT_SENSITIVE MEMLIMIT_SENSITIVE) (\<lambda>key.
     io_bind (io_lift (SecretBox key)) (\<lambda>box.
     io_bind (io_lift (box_encrypt E box (fst keys) name_nonce)) (\<lambda>enc_name_key.
     io_bind (io_lift (box_encrypt E box (snd keys) value_nonce)) (\<lambda>enc_value_key.
     io_bind (\<lambda>w. SqliteKV_init (PARAMETER_DB w) ''config'' True w) (\<lambda>config_db.
     io_bind (kv_setitem E config_db (yubikey_record_name (serial device))
                (yubikey_record E slot challenge salt enc_name_key enc_value_key)) (\<lambda>_.
     io_bind (kv_setitem E config_db ''default-open-method'' (PStr ''yubikey'')) (\<lambda>_.
     io_return ())))))))))"

text \<open>The arguments of the call of \<^verbatim>\<open>get_yubikey_decrypt_key\<close> in \<^verbatim>\<open>get_keys_by_yubikey\<close>, read
  from the stored record in the order the call lists them.\<close>

definition yubikey_kek :: "ext \<Rightarrow> yubikey \<Rightarrow> pyval \<Rightarrow> bytes io" where
  "yubikey_kek E device cfg =
     io_bind (io_lift (and_then (dict_getitem cfg ''slot'') SLOT)) (\<lambda>slot.
     io_bind (io_lift (and_then (dict_getitem cfg ''challenge'') as_bytes)) (\<lambda>challenge.
     io_bind (io_lift (and_then (dict_getitem cfg ''salt'') as_bytes)) (\<lambda>salt.
     io_bind (io_lift (and_then (dict_getitem cfg ''keysize'') as_int)) (\<lambda>keysize.
     io_bind (io_lift (and_then (dict_getitem cfg ''opslimit'') as_int)) (\<lambda>opslimit.
     io_bind (io_lift (and_then (dict_getitem cfg ''memlimit'') as_int)) (\<lambda>memlimit.
     get_yubikey_decrypt_key E device slot challenge salt keysize opslimit memlimit))))))"

definition get_keys_by_yubikey :: "ext \<Rightarrow> (bytes \<times> bytes) io" where
  "get_keys_by_yubikey E =
     io_bind (\<lambda>w. SqliteKV_init (PARAMETER_DB w) ''config'' True w) (\<lambda>config_db.
     io_bind first_device (\<lambda>device.
     io_bind (kv_getitem E config_db (yubikey_record_name (serial device))) (\<lambda>yk_config.
     io_bind (io_lift (decode_fields E [''challenge'', ''salt'', ''name_key'', ''value_key'']
                yk_config)) (\<lambda>yk_config.
     io_bind (yubikey_kek E device yk_config) (\<lambda>decrypt_key.
     io_bind (io_lift (SecretBox decrypt_key)) (\<lambda>box.
     io_lift (decrypt_key_pair E box yk_config)))))))"

section \<open>\<^verbatim>\<open>open_parameter_store\<close> and the interceptor\<close>

definition open_parameter_store :: "ext \<Rightarrow> pyval option \<Rightarrow> ParameterStore io" where
  "open_parameter_store E method =
     io_bind (\<lambda>w. SqliteKV_init (PARAMETER_DB w) ''config'' True w) (\<lambda>config_db.
     io_bind (case method of
                None \<Rightarrow> kv_getitem E config_db ''default-open-method''
              | Some m \<Rightarrow> io_return m) (\<lambda>method.
     if method \<notin> set [PStr ''password'', PStr ''yubikey'', PStr ''keyring'']
     then io_raise (ValueError ''invalid encryption security method'')
     else
     io_bind (if method = PStr ''password''
              then (\<lambda>w. get_keys_by_password E (PARAMETER_DB_PASSWORD w) w)
              else if method = PStr ''yubikey'' then get_keys_by_yubikey E
              else if method = PStr ''keyring'' then get_keys_by_keyring E
              else io_raise (ValueError ''method must be password, yubikey, or keyring''))
       (\<lambda>keys.
     (\<lambda>w. ParameterStore_init (PARAMETER_DB w) (fst keys) (snd keys) w))))"

text \<open>\<^verbatim>\<open>SSMParameterStore\<close> (\<^verbatim>\<open>aws.py\<close>): the constructor normalises the prefix; \<^verbatim>\<open>__setitem__\<close>
  puts the JSON text of the value under the prefixed name; the class defines no
  \<^verbatim>\<open>__delitem__\<close>.\<close>

definition SSMParameterStore_init :: "string \<Rightarrow> backend io" where
  "SSMParameterStore_init parameter_prefix =
     (let p = rev (dropWhile (\<lambda>c. c = CHR ''/'') (rev parameter_prefix))
      in io_return (SSM (case p of [] \<Rightarrow> ''/'' | c # _ \<Rightarrow> if c = CHR ''/'' then p else CHR ''/'' # p)))"

definition ssm_setitem :: "ext \<Rightarrow> string \<Rightarrow> pyval \<Rightarrow> pyval \<Rightarrow> unit io" where
  "ssm_setitem E prefix name val w =
     (if PARAMETER_READ_ONLY w
      then (Inl (SSMParameterStoreException ''Cannot write to AWS SSM parameter store''), w)
      else
        (case name of
           PStr n \<Rightarrow>
             (let full = (case n of [] \<Rightarrow> prefix @ ''/'' @ n
                          | c # _ \<Rightarrow> if c = CHR ''/'' then n else prefix @ ''/'' @ n)
              in case py_json_dumps E val of
                   Inl e \<Rightarrow> (Inl e, w)
                 | Inr s \<Rightarrow> (Inr (), w\<lparr>ssm := filter (\<lambda>p. fst p \<noteq> full) (ssm w) @ [(full, s)]\<rparr>))
         | _ \<Rightarrow> (Inl AttributeError, w)))"

text \<open>\<^verbatim>\<open>ParameterStoreInterceptor\<close>: \<^verbatim>\<open>_load_store\<close>, \<^verbatim>\<open>__setitem__\<close> and \<^verbatim>\<open>__delitem__\<close>. The
  prefix of the SSM store is its default when the environment does not override it.\<close>

definition load_store :: "ext \<Rightarrow> unit io" where
  "load_store E w =
     (if PARAMETER_DRIVER w = ''local''
      then io_bind (open_parameter_store E None)
             (\<lambda>ps w'. (Inr (), w'\<lparr>params_ps := Some (Local ps)\<rparr>)) w
      else if PARAMETER_DRIVER w = ''aws-ssm''
      then io_bind (SSMParameterStore_init ''/parci'')
             (\<lambda>ps w'. (Inr (), w'\<lparr>params_ps := Some ps\<rparr>)) w
      else (Inl (ValueError ''config.PARAMETER_DRIVER is not a valid driver type''), w))"

definition ensure_loaded :: "ext \<Rightarrow> unit io" where
  "ensure_loaded E w = (if params_ps w = None then load_store E w else (Inr (), w))"

definition interceptor_setitem :: "ext \<Rightarrow> bytes \<Rightarrow> pyval \<Rightarrow> pyval \<Rightarrow> unit io" where
  "interceptor_setitem E nonce key val w =
     (if PARAMETER_READ_ONLY w
      then (Inl (ParameterStoreException ''config.PARAMETER_READ_ONLY is set to true''), w)
      else
        io_bind (ensure_loaded E) (\<lambda>_ w'.
          case params_ps w' of
            None \<Rightarrow> (Inl AttributeError, w')
          | Some (Local ps) \<Rightarrow> ps_setitem E ps nonce key val w'
          | Some (SSM prefix) \<Rightarrow> ssm_setitem E prefix key val w') w)"

definition interceptor_delitem :: "ext \<Rightarrow> pyval \<Rightarrow> unit io" where
  "interceptor_delitem E key w =
     (if PARAMETER_READ_ONLY w
      then (Inl (ParameterStoreException ''config.PARAMETER_READ_ONLY is set to true''), w)
      else
        io_bind (ensure_loaded E) (\<lambda>_ w'.
          case params_ps w' of
            None \<Rightarrow> (Inl AttributeError, w')
          | Some (Local ps) \<Rightarrow> ps_delitem E ps key w'
          | Some (SSM prefix) \<Rightarrow> (Inl AttributeError, w')) w)"

text \<open>The class of a raised exception, as \<^verbatim>\<open>type(e).__name__\<close> names it.\<close>

definition exception_type :: "error \<Rightarrow> string" where
  "exception_type e =
     (case e of
        KeyError _ \<Rightarrow> ''KeyError''
      | ValueError _ \<Rightarrow> ''ValueError''
      | TypeError \<Rightarrow> ''TypeError''
      | IndexError \<Rightarrow> ''IndexError''
      | AttributeError \<Rightarrow> ''AttributeError''
      | EOFError \<Rightarrow> ''EOFError''
      | CryptoError \<Rightarrow> ''CryptoError''
      | BinasciiError \<Rightarrow> ''Error''
      | JSONDecodeError \<Rightarrow> ''JSONDecodeError''
      | InterfaceError \<Rightarrow> ''InterfaceError''
      | KeyringError \<Rightarrow> ''KeyringError''
      | DeviceError \<Rightarrow> ''DeviceError''
      | ParameterStoreException _ \<Rightarrow> ''ParameterStoreException''
      | SSMParameterStoreException _ \<Rightarrow> ''SSMParameterStoreException'')"

section \<open>What the proofs require of the libraries\<close>

text \<open>
  \<open>libs_ok\<close>: a sealed message opens under the same key, base64 text decodes to the bytes
  it encodes, and UTF-8 bytes decode to the text they encode.
  \<open>json_roundtrip\<close>: the value \<open>v\<close> is JSON-serializable and parsing its JSON text gives
  \<open>v\<close> back.
\<close>

definition libs_ok :: "ext \<Rightarrow> bool" where
  "libs_ok E =
     ((\<forall>k m n. unseal E k (seal E k m n) = Some m) \<and>
      (\<forall>b. b64decode E (b64encode E b) = Some b) \<and>
      (\<forall>s. utf8_decode E (utf8 E s) = Some s))"

definition json_roundtrip :: "ext \<Rightarrow> pyval \<Rightarrow> bool" where
  "json_roundtrip E v =
     (case json_dumps E v of None \<Rightarrow> False | Some s \<Rightarrow> json_loads E s = Some v)"

section \<open>A small instance of the libraries\<close>

text \<open>
  Executable stand-ins for the library functions, on which the theorems below are
  evaluated: a self-delimiting text encoding in place of JSON, the bytes themselves in
  place of their base64 and UTF-8 forms, a seal that carries key and message in the
  clear behind the nonce, a digest that appends the key, a key derivation that repeats
  password and salt, and a normalisation that turns the no-break space into a space.
\<close>

definition is_digit :: "char \<Rightarrow> bool" where
  "is_digit c = (48 \<le> (of_char c :: nat) \<and> (of_char c :: nat) \<le> 57)"

definition read_int :: "string \<Rightarrow> int \<times> string" where
  "read_int s =
     (foldl (\<lambda>a c. 10 * a + ((of_char c :: int) - 48)) 0 (takeWhile is_digit s),
      dropWhile is_digit s)"

definition read_nat :: "string \<Rightarrow> nat \<times> string" where
  "read_nat s = (case read_int s of (i, r) \<Rightarrow> (nat i, r))"

fun pair_up :: "pyval list \<Rightarrow> (string \<times> pyval) list option" where
  "pair_up [] = Some []"
| "pair_up [_] = None"
| "pair_up (k # v # r) =
     (case k of
        PStr s \<Rightarrow> (case pair_up r of None \<Rightarrow> None | Some kvs \<Rightarrow> Some ((s, v) # kvs))
      | _ \<Rightarrow> None)"

fun demo_enc :: "pyval \<Rightarrow> string option"
  and demo_enc_list :: "pyval list \<Rightarrow> string option"
  and demo_enc_dict :: "(string \<times> pyval) list \<Rightarrow> string option" where
  "demo_enc PNone = Some ''n''"
| "demo_enc (PBool b) = Some (if b then ''t'' else ''f'')"
| "demo_enc (PInt i) = Some (CHR ''i'' # str_int i @ '';'')"
| "demo_enc (PStr s) = Some (CHR ''s'' # str_nat (length s) @ '':'' @ s)"
| "demo_enc (PBytes b) = None"
| "demo_enc (PList xs) =
     (case demo_enc_list xs of
        None \<Rightarrow> None
      | Some r \<Rightarrow> Some (CHR ''l'' # str_nat (length xs) @ '':'' @ r))"
| "demo_enc (PDict kvs) =
     (case demo_enc_dict kvs of
        None \<Rightarrow> None
      | Some r \<Rightarrow> Some (CHR ''d'' # str_nat (2 * length kvs) @ '':'' @ r))"
| "demo_enc_list [] = Some []"
| "demo_enc_list (x # xs) =
     (case demo_enc x of
        None \<Rightarrow> None
      | Some a \<Rightarrow> (case demo_enc_list xs of None \<Rightarrow> None | Some r \<Rightarrow> Some (a @ r)))"
| "demo_enc_dict [] = Some []"
| "demo_enc_dict (p # ps) =
     (case demo_enc (snd p) of
        None \<Rightarrow> None
      | Some a \<Rightarrow>
          (case demo_enc_dict ps of
             None \<Rightarrow> None
           | Some r \<Rightarrow> Some (CHR ''s'' # str_nat (length (fst p)) @ '':'' @ fst p @ a @ r)))"

fun demo_dec :: "nat \<Rightarrow> string \<Rightarrow> (pyval \<times> string) option"
  and demo_dec_list :: "nat \<Rightarrow> nat \<Rightarrow> string \<Rightarrow> (pyval list \<times> string) option" where
  "demo_dec 0 s = None"
| "demo_dec (Suc f) [] = None"
| "demo_dec (Suc f) (c # s) =
     (if c = CHR ''n'' then Some (PNone, s)
      else if c = CHR ''t'' then Some (PBool True, s)
      else if c = CHR ''f'' then Some (PBool False, s)
      else if c = CHR ''i'' then
        (case s of
           [] \<Rightarrow> None
         | d # s' \<Rightarrow>
             if d = CHR ''-''
             then (case read_int s' of (n, r) \<Rightarrow> Some (PInt (- n), drop 1 r))
             else (case read_int s of (n, r) \<Rightarrow> Some (PInt n, drop 1 r)))
      else if c = CHR ''s'' then
        (case read_nat s of
           (n, r) \<Rightarrow>
             if n \<le> length (drop 1 r) then Some (PStr (take n (drop 1 r)), drop n (drop 1 r))
             else None)
      else if c = CHR ''l'' then
        (case read_nat s of
           (n, r) \<Rightarrow>
             (case demo_dec_list f n (drop 1 r) of
                None \<Rightarrow> None
              | Some (vs, r') \<Rightarrow> Some (PList vs, r')))
      else if c = CHR ''d'' then
        (case read_nat s of
           (n, r) \<Rightarrow>
             (case demo_dec_list f n (drop 1 r) of
                None \<Rightarrow> None
              | Some (vs, r') \<Rightarrow>
                  (case pair_up vs of None \<Rightarrow> None | Some kvs \<Rightarrow> Some (PDict kvs, r'))))
      else None)"
| "demo_dec_list f 0 s = Some ([], s)"
| "demo_dec_list f (Suc n) s =
     (case demo_dec f s of
        None \<Rightarrow> None
      | Some (v, r) \<Rightarrow>
          (case demo_dec_list f n r of None \<Rightarrow> None | Some (vs, r') \<Rightarrow> Some (v # vs, r')))"

definition demo_loads :: "string \<Rightarrow> pyval option" where
  "demo_loads s =
     (case demo_dec (Suc (length s)) s of
        None \<Rightarrow> None
      | Some (v, r) \<Rightarrow> if r = [] then Some v else None)"

definition demo_seal :: "bytes \<Rightarrow> bytes \<Rightarrow> bytes \<Rightarrow> bytes" where
  "demo_seal k m n = str_nat (length n) @ '':'' @ n @ str_nat (length k) @ '':'' @ k @ m"

definition demo_unseal :: "bytes \<Rightarrow> bytes \<Rightarrow> bytes option" where
  "demo_unseal k c =
     (case read_nat c of
        (ln, r) \<Rightarrow>
          (case read_nat (drop ln (drop 1 r)) of
             (lk, r') \<Rightarrow>
               if take lk (drop 1 r') = k \<and> lk = length k then Some (drop lk (drop 1 r'))
               else None))"

definition demo_kdf :: "int \<Rightarrow> bytes \<Rightarrow> bytes \<Rightarrow> int \<Rightarrow> int \<Rightarrow> bytes option" where
  "demo_kdf keysize password salt opslimit memlimit =
     (if keysize < 16 \<or> length salt \<noteq> SALTBYTES then None
      else Some (take (nat keysize)
                   (concat (replicate (nat keysize) (password @ salt)))))"

definition demo_ext :: ext where
  "demo_ext =
     \<lparr>json_dumps = demo_enc,
      json_loads = demo_loads,
      b64encode = (\<lambda>b. b),
      b64decode = Some,
      utf8 = (\<lambda>s. s),
      utf8_decode = Some,
      nfkc = map (\<lambda>c. if c = char_of (160 :: nat) then CHR '' '' else c),
      seal = demo_seal,
      unseal = demo_unseal,
      blake2b_hex = (\<lambda>d k. d @ k),
      argon2id_kdf = demo_kdf\<rparr>"

text \<open>A process as it starts (nothing stored, one YubiKey attached, read-only as
  \<^verbatim>\<open>config.py\<close> sets it) and a local store with two keys of the right size.\<close>

definition demo_world :: world where
  "demo_world =
     \<lparr>tkv = [], keyring_entry = None, keyring_usable = True,
      devices = [\<lparr>serial = Some 7, calculate_hmac_sha1 = (\<lambda>slot c. Some (rev c))\<rparr>],
      ssm = [], tty = [], trace = [], params_ps = None,
      PARAMETER_DRIVER = ''local'', PARAMETER_DB = ''params.db'',
      PARAMETER_DB_PASSWORD = None, PARAMETER_READ_ONLY = True\<rparr>"

definition demo_store :: ParameterStore where
  "demo_store =
     \<lparr>kv = \<lparr>table = ''params'', serialize_values = False\<rparr>,
      name_key = replicate 32 CHR ''n'', value_key = replicate 32 CHR ''v''\<rparr>"

text \<open>Draws of \<^verbatim>\<open>nacl.utils.random\<close> of the right sizes, and two passwords that differ only by
  a no-break space in place of a space.\<close>

definition demo_salt :: bytes where "demo_salt = replicate 16 CHR ''s''"
definition demo_nonce :: bytes where "demo_nonce = replicate 24 CHR ''0''"

definition demo_password :: string where "demo_password = ''hunter 2''"

text \<open>A wrapping key and a challenge as \<^verbatim>\<open>nacl.utils.random\<close> draws them, and the world after
  \<^verbatim>\<open>init\<close> with \<open>demo_password\<close>, the operator about to type that password once.\<close>

definition demo_wrap_key :: bytes where "demo_wrap_key = replicate 32 CHR ''k''"
definition demo_challenge :: bytes where "demo_challenge = replicate 64 CHR ''c''"

definition demo_kek :: bytes where
  "demo_kek = the (argon2id_kdf demo_ext (int KEY_SIZE) (utf8 demo_ext (nfkc demo_ext demo_password))
                     demo_salt OPSLIMIT_SENSITIVE MEMLIMIT_SENSITIVE)"

definition demo_initialized :: world where
  "demo_initialized =
     demo_world\<lparr>tkv :=
       [(''config'', ''password'',
         PStr (the (json_dumps demo_ext
                 (password_record demo_ext demo_salt
                    (seal demo_ext demo_kek (name_key demo_store) demo_nonce)
                    (seal demo_ext demo_kek (value_key demo_store) demo_nonce))))),
        (''config'', ''default-open-method'', PStr ''s8:password'')],
       tty := [demo_password]\<rparr>"

section \<open>A run of writes\<close>








section \<open>The read-only gate\<close>

text \<open>
  Claim C3. \<^verbatim>\<open>config.PARAMETER_READ_ONLY\<close> is true in a freshly imported configuration, and
  while it is true \<^verbatim>\<open>ParameterStore.__setitem__\<close> and \<^verbatim>\<open>ParameterStore.__delitem__\<close> raise
  the store's read-only exception for every name and value and leave the whole world, the
  rows of the database among it, exactly as it was.
\<close>

theorem read_only_rejects_writes:
  "PARAMETER_READ_ONLY (import_config env_driver db_path env_password w0) \<and>
   (PARAMETER_READ_ONLY w \<longrightarrow>
      ps_setitem E ps nonce name val w = (Inl (KeyError ''ParameterStore is read-only''), w) \<and>
      ps_delitem E ps name w = (Inl (KeyError ''ParameterStore is read-only''), w))"
  by (simp add: import_config_def ps_setitem_def ps_delitem_def)

theorem read_only_rejects_writes_witness:
  "PARAMETER_READ_ONLY demo_world \<and>
   ps_setitem demo_ext demo_store (replicate 24 CHR ''0'') (PStr ''token'') (PStr ''abc123'')
     demo_world = (Inl (KeyError ''ParameterStore is read-only''), demo_world) \<and>
   ps_delitem demo_ext demo_store (PStr ''token'') demo_world
     = (Inl (KeyError ''ParameterStore is read-only''), demo_world)"
proof -
  have ro: "PARAMETER_READ_ONLY demo_world"
    by (simp add: demo_world_def)
  have "PARAMETER_READ_ONLY demo_world \<longrightarrow>
      ps_setitem demo_ext demo_store (replicate 24 CHR ''0'') (PStr ''token'') (PStr ''abc123'')
        demo_world = (Inl (KeyError ''ParameterStore is read-only''), demo_world) \<and>
      ps_delitem demo_ext demo_store (PStr ''token'') demo_world
        = (Inl (KeyError ''ParameterStore is read-only''), demo_world)"
    using read_only_rejects_writes by (rule conjunct2)
  with ro show ?thesis by blast
qed

text \<open>
  Claim C9. While \<^verbatim>\<open>config.PARAMETER_READ_ONLY\<close> is true, \<^verbatim>\<open>__setitem__\<close> and \<^verbatim>\<open>__delitem__\<close> of
  the interceptor raise \<^verbatim>\<open>ParameterStoreException\<close> and the world is unchanged: \<^verbatim>\<open>_ps\<close> is
  what it was (still unloaded if it was), no line of the terminal is consumed, no event
  (prompt, database connection, keyring or device call) joins the trace, no row changes.
\<close>

theorem interceptor_gate_before_load:
  "PARAMETER_READ_ONLY w \<Longrightarrow>
     interceptor_setitem E nonce key val w
       = (Inl (ParameterStoreException ''config.PARAMETER_READ_ONLY is set to true''), w) \<and>
     interceptor_delitem E key w
       = (Inl (ParameterStoreException ''config.PARAMETER_READ_ONLY is set to true''), w)"
  by (simp add: interceptor_setitem_def interceptor_delitem_def)

theorem interceptor_gate_before_load_witness:
  "PARAMETER_READ_ONLY demo_world \<and> params_ps demo_world = None \<and>
   interceptor_setitem demo_ext (replicate 24 CHR ''0'') (PStr ''token'') (PStr ''abc123'')
     demo_world
     = (Inl (ParameterStoreException ''config.PARAMETER_READ_ONLY is set to true''), demo_world) \<and>
   interceptor_delitem demo_ext (PStr ''token'') demo_world
     = (Inl (ParameterStoreException ''config.PARAMETER_READ_ONLY is set to true''), demo_world)"
proof -
  have ro: "PARAMETER_READ_ONLY demo_world"
    by (simp add: demo_world_def)
  have locked: "params_ps demo_world = None"
    by (simp add: demo_world_def)
  from ro locked interceptor_gate_before_load [OF ro] show ?thesis by blast
qed

section \<open>Looking up a name that has no row\<close>

text \<open>
  Claim C4. When the name is JSON-serializable, the value key has the size of a secretbox
  key, and the table of the store has no row under the digest of the name,
  \<^verbatim>\<open>ParameterStore.__getitem__\<close> raises \<^verbatim>\<open>KeyError("Key does not exist")\<close>, the exception of
  \<^verbatim>\<open>SqliteKV.__getitem__\<close>, and no other, and changes nothing.
\<close>

theorem missing_name_is_KeyError:
  assumes "calc_key E ps name = Inr db_key"
    and "select_values (tkv w) (table (kv ps)) db_key = []"
    and "length (value_key ps) = KEY_SIZE"
  shows "ps_getitem E ps name w = (Inl (KeyError ''Key does not exist''), w)"
  using assms
  by (simp add: ps_getitem_def io_bind_def io_lift_def SecretBox_def kv_getitem_def)

theorem missing_name_is_KeyError_witness:
  "calc_key demo_ext demo_store (PStr ''token'') = Inr (''s5:token'' @ replicate 32 CHR ''n'') \<and>
   select_values (tkv demo_world) (table (kv demo_store)) (''s5:token'' @ replicate 32 CHR ''n'') = [] \<and>
   length (value_key demo_store) = KEY_SIZE \<and>
   ps_getitem demo_ext demo_store (PStr ''token'') demo_world
     = (Inl (KeyError ''Key does not exist''), demo_world)"
proof -
  have h1: "calc_key demo_ext demo_store (PStr ''token'')
              = Inr (''s5:token'' @ replicate 32 CHR ''n'')"
    by code_simp
  have h2: "select_values (tkv demo_world) (table (kv demo_store))
              (''s5:token'' @ replicate 32 CHR ''n'') = []"
    by (simp add: demo_world_def select_values_def)
  have h3: "length (value_key demo_store) = KEY_SIZE"
    by (simp add: demo_store_def KEY_SIZE_def)
  from h1 h2 h3 missing_name_is_KeyError [OF h1 h2 h3] show ?thesis by blast
qed

text \<open>
  Claim C10. A write that the read-only gate of the local store rejects and a lookup in
  \<^verbatim>\<open>SqliteKV\<close> of a key that has no row both raise an exception of the class \<^verbatim>\<open>KeyError\<close>:
  the class of the exception does not tell the two conditions apart.
\<close>

theorem gate_and_missing_key_same_type:
  assumes "PARAMETER_READ_ONLY w"
    and "select_values (tkv w) (table (kv ps)) db_key = []"
  shows "\<exists>e1 e2. fst (ps_setitem E ps nonce name val w) = Inl e1 \<and>
           fst (kv_getitem E (kv ps) db_key w) = Inl e2 \<and>
           exception_type e1 = ''KeyError'' \<and> exception_type e2 = ''KeyError''"
  using assms
  by (simp add: ps_setitem_def kv_getitem_def exception_type_def)

theorem gate_and_missing_key_same_type_witness:
  "PARAMETER_READ_ONLY demo_world \<and>
   select_values (tkv demo_world) (table (kv demo_store)) ''0a1b'' = [] \<and>
   (\<exists>e1 e2. fst (ps_setitem demo_ext demo_store (replicate 24 CHR ''0'') (PStr ''token'')
                   (PStr ''abc123'') demo_world) = Inl e1 \<and>
      fst (kv_getitem demo_ext (kv demo_store) ''0a1b'' demo_world) = Inl e2 \<and>
      exception_type e1 = ''KeyError'' \<and> exception_type e2 = ''KeyError'')"
proof -
  have h1: "PARAMETER_READ_ONLY demo_world"
    by (simp add: demo_world_def)
  have h2: "select_values (tkv demo_world) (table (kv demo_store)) ''0a1b'' = []"
    by (simp add: demo_world_def select_values_def)
  from h1 h2 gate_and_missing_key_same_type [OF h1 h2] show ?thesis by blast
qed


section \<open>Facts about the small instance\<close>

lemma str_digits_are_digits: "0 \<le> i \<Longrightarrow> c \<in> set (str_digits i) \<Longrightarrow> is_digit c"
proof (induction i arbitrary: c rule: str_digits.induct)
  case (1 i)
  show ?case
  proof (cases "i < 10")
    case True
    with "1.prems" have "nat i < 10" by simp
    with True "1.prems" show ?thesis
      by (simp add: str_digits.simps [of i] is_digit_def)
  next
    case False
    have "nat (i mod 10) < 10" by simp
    then have d: "is_digit (char_of (48 + nat (i mod 10)))"
      by (simp add: is_digit_def)
    from False "1.prems"
    have "c \<in> set (str_digits (i div 10)) \<or> c = char_of (48 + nat (i mod 10))"
      by (auto simp add: str_digits.simps [of i])
    moreover from "1.prems" have "0 \<le> i div 10" by simp
    ultimately show ?thesis
      using "1.IH" [OF False] d by blast
  qed
qed

lemma of_char_digit:
  "nat k < 10 \<Longrightarrow> 0 \<le> k \<Longrightarrow> (of_char (char_of (48 + nat k) :: char) :: int) = 48 + k"
proof -
  assume a: "nat k < 10" and b: "0 \<le> k"
  have "(of_char (char_of (48 + nat k) :: char) :: nat) = 48 + nat k"
    using a by simp
  then have "int (of_char (char_of (48 + nat k) :: char)) = int (48 + nat k)"
    by (rule arg_cong)
  then show ?thesis using b by (simp only: of_nat_of_char)
qed

lemma foldl_str_digits:
  "0 \<le> i \<Longrightarrow> foldl (\<lambda>a c. 10 * a + ((of_char c :: int) - 48)) 0 (str_digits i) = i"
proof (induction i rule: str_digits.induct)
  case (1 i)
  show ?case
  proof (cases "i < 10")
    case True
    with "1.prems" have "nat i < 10" by simp
    then have "(of_char (char_of (48 + nat i) :: char) :: int) = 48 + i"
      using "1.prems" by (rule of_char_digit)
    with True show ?thesis by (simp add: str_digits.simps [of i])
  next
    case False
    have "nat (i mod 10) < 10" by simp
    moreover have "0 \<le> i mod 10" by simp
    ultimately have c: "(of_char (char_of (48 + nat (i mod 10)) :: char) :: int) = 48 + i mod 10"
      by (rule of_char_digit)
    from "1.prems" have "0 \<le> i div 10" by simp
    with False "1.IH" [OF False] c show ?thesis
      by (simp add: str_digits.simps [of i])
  qed
qed

lemma read_nat_str_nat: "\<not> is_digit c \<Longrightarrow> read_nat (str_nat n @ c # r) = (n, c # r)"
proof -
  assume c: "\<not> is_digit c"
  have dg: "\<forall>x\<in>set (str_nat n). is_digit x"
    using str_digits_are_digits [of "int n"] by (simp add: str_nat_def)
  have t: "takeWhile is_digit (str_nat n @ c # r) = str_nat n"
    using c dg by (simp add: takeWhile_append2)
  have d: "dropWhile is_digit (str_nat n @ c # r) = c # r"
    using c dg by (simp add: dropWhile_append2)
  show ?thesis
    unfolding read_nat_def read_int_def t d
    using foldl_str_digits [of "int n"] by (simp add: str_nat_def)
qed

lemma demo_unseal_seal: "demo_unseal k (demo_seal k m n) = Some m"
proof -
  have nd: "\<not> is_digit CHR '':''" by (simp add: is_digit_def)
  show ?thesis
    by (simp add: demo_unseal_def demo_seal_def read_nat_str_nat [OF nd])
qed

lemma demo_libs_ok: "libs_ok demo_ext"
  by (simp add: libs_ok_def demo_ext_def demo_unseal_seal)

section \<open>Rows of the table\<close>


lemma filter_map_upsert:
  "filter (row_matches t k) (map (\<lambda>r. if row_matches t k r then (t, k, v) else r) rows)
     = replicate (length (filter (row_matches t k) rows)) (t, k, v)"
  by (induction rows) (auto simp: row_matches_def)

lemma select_upsert_same: "\<exists>vs. select_values (upsert rows t k v) t k = v # vs"
proof (cases "filter (row_matches t k) rows = []")
  case True
  then show ?thesis
    by (simp add: select_values_def upsert_def row_matches_def)
next
  case False
  then obtain m where "length (filter (row_matches t k) rows) = Suc m"
    by (cases "filter (row_matches t k) rows") auto
  with False show ?thesis
    by (simp add: select_values_def upsert_def filter_map_upsert)
qed

lemma filter_upsert_other:
  "(t', k') \<noteq> (t, k) \<Longrightarrow>
     filter (row_matches t' k') (upsert rows t k v) = filter (row_matches t' k') rows"
proof -
  assume ne: "(t', k') \<noteq> (t, k)"
  have "filter (row_matches t' k') (map (\<lambda>r. if row_matches t k r then (t, k, v) else r) rows)
          = filter (row_matches t' k') rows"
    using ne by (induction rows) (auto simp: row_matches_def)
  with ne show ?thesis
    by (auto simp: upsert_def row_matches_def)
qed

lemma select_upsert_other:
  "(t', k') \<noteq> (t, k) \<Longrightarrow> select_values (upsert rows t k v) t' k' = select_values rows t' k'"
  by (simp add: select_values_def filter_upsert_other)

section \<open>Setting and getting a secret\<close>



section \<open>Reading an unlock record back\<close>











section \<open>Initialising the store\<close>



section \<open>Normalisation of the passphrase\<close>



section \<open>What registration leaves alone\<close>

lemma get_keys_by_password_frame:
  assumes "get_keys_by_password E pw w = (r, w1)"
  shows "w1 = w\<lparr>tty := tty w1, trace := trace w1\<rparr>"
  using assms
  by (auto simp: get_keys_by_password_def io_bind_def SqliteKV_init_def log_event_def
      io_return_def kv_getitem_def io_lift_def getpass_def
      split: list.splits if_splits sum.splits option.splits prod.splits)

lemma get_keys_by_password_cong:
  assumes "select_values (tkv a) ''config'' ''password'' = select_values (tkv b) ''config'' ''password''"
    and "tty a = tty b"
  shows "fst (get_keys_by_password E pw a) = fst (get_keys_by_password E pw b)"
  using assms
  by (auto simp: get_keys_by_password_def io_bind_def SqliteKV_init_def log_event_def
      io_return_def kv_getitem_def io_lift_def getpass_def
      split: list.splits if_splits sum.splits option.splits prod.splits)

lemma ps_getitem_cong:
  assumes "\<And>k. select_values (tkv a) (table (kv ps)) k = select_values (tkv b) (table (kv ps)) k"
  shows "fst (ps_getitem E ps name a) = fst (ps_getitem E ps name b)"
  using assms
  by (auto simp: ps_getitem_def io_bind_def kv_getitem_def io_lift_def
      split: list.splits if_splits sum.splits option.splits prod.splits)


lemma register_keyring_success:
  assumes reg: "register_keyring E key nn vn w = (Inr (), w')"
    and keys: "get_keys_by_password E None w = (Inr (nk, vk), w1)"
  obtains s1 s2 where
    "length key = KEY_SIZE" "keyring_usable w1"
    "json_dumps E (keyring_record E (seal E key nk nn) (seal E key vk vn)) = Some s1"
    "json_dumps E (PStr ''keyring'') = Some s2"
    "w' = w1\<lparr>tkv := upsert (upsert (tkv w1) ''config'' ''keyring'' (PStr s1))
                         ''config'' ''default-open-method'' (PStr s2),
               keyring_entry := Some (b64encode E key),
               trace := trace w1 @ [Connect (PARAMETER_DB w1), KeyringSet]\<rparr>"
  using reg keys
  by (auto simp: register_keyring_def io_bind_def io_return_def io_lift_def SecretBox_def
      box_encrypt_def SqliteKV_init_def log_event_def kv_setitem_def py_json_dumps_def
      sqlite_bind_def keyring_set_password_def encode_bytes_def
      split: if_splits option.splits)

lemma decode_fields_keyring_record:
  assumes "libs_ok E"
  shows "decode_fields E [''name_key'', ''value_key''] (keyring_record E c1 c2)
           = Inr (PDict [(''name_key'', PBytes c1), (''value_key'', PBytes c2)])"
  using assms
  by (simp add: keyring_record_def dict_getitem_def dict_setitem_def decode_bytes_def
      encode_bytes_def libs_ok_def)

lemma unlock_keyring_record:
  assumes libs: "libs_ok E"
    and row: "select_values (tkv w) ''config'' ''keyring'' = PStr s # others"
    and js: "json_loads E s = Some (keyring_record E (seal E key nk nn) (seal E key vk vn))"
    and entry: "keyring_entry w = Some (b64encode E key)" and usable: "keyring_usable w"
    and ksz: "length key = KEY_SIZE"
  shows "fst (get_keys_by_keyring E w) = Inr (nk, vk)"
proof -
  let ?cfg = "PDict [(''name_key'', PBytes (seal E key nk nn)),
                     (''value_key'', PBytes (seal E key vk vn))]"
  have pair: "decrypt_key_pair E key ?cfg = Inr (nk, vk)"
    using libs
    by (simp add: decrypt_key_pair_def and_then_def dict_getitem_def as_bytes_def
        box_decrypt_def libs_ok_def)
  have dec: "decode_bytes E (PStr (b64encode E key)) = Inr key"
    using libs by (simp add: decode_bytes_def libs_ok_def)
  show ?thesis
    using row js ksz entry usable pair dec decode_fields_keyring_record [OF libs]
    by (simp add: get_keys_by_keyring_def io_bind_def SqliteKV_init_def log_event_def
        io_return_def kv_getitem_def py_json_loads_def io_lift_def SecretBox_def
        keyring_get_password_def)
qed


lemma register_yubikey_success:
  assumes reg: "register_yubikey E slot challenge salt nn vn w = (Inr (), w')"
    and keys: "get_keys_by_password E None w = (Inr (nk, vk), w1)"
  obtains d ds resp ykey s1 s2 where
    "devices w1 = d # ds"
    "calculate_hmac_sha1 d slot challenge = Some resp"
    "argon2id_kdf E (int KEY_SIZE) resp salt OPSLIMIT_SENSITIVE MEMLIMIT_SENSITIVE = Some ykey"
    "length ykey = KEY_SIZE"
    "json_dumps E (yubikey_record E slot challenge salt (seal E ykey nk nn) (seal E ykey vk vn))
       = Some s1"
    "json_dumps E (PStr ''yubikey'') = Some s2"
    "w' = w1\<lparr>tkv := upsert (upsert (tkv w1) ''config'' (yubikey_record_name (serial d)) (PStr s1))
                         ''config'' ''default-open-method'' (PStr s2),
               trace := trace w1 @ [ListDevices, Challenge, Connect (PARAMETER_DB w1)]\<rparr>"
  using reg keys
  by (auto simp: register_yubikey_def io_bind_def io_return_def io_lift_def SecretBox_def
      box_encrypt_def SqliteKV_init_def log_event_def kv_setitem_def py_json_dumps_def
      sqlite_bind_def first_device_def get_yubikey_decrypt_key_def
      split: if_splits option.splits list.splits)

lemma decode_fields_yubikey_record:
  assumes "libs_ok E"
  shows "decode_fields E [''challenge'', ''salt'', ''name_key'', ''value_key'']
           (yubikey_record E slot challenge salt c1 c2)
           = Inr (PDict [(''slot'', PInt slot),
                         (''challenge'', PBytes challenge),
                         (''salt'', PBytes salt),
                         (''keysize'', PInt (int KEY_SIZE)),
                         (''opslimit'', PInt OPSLIMIT_SENSITIVE),
                         (''memlimit'', PInt MEMLIMIT_SENSITIVE),
                         (''name_key'', PBytes c1),
                         (''value_key'', PBytes c2)])"
  using assms
  by (simp add: yubikey_record_def dict_getitem_def dict_setitem_def decode_bytes_def
      encode_bytes_def libs_ok_def)

lemma unlock_yubikey_record:
  assumes libs: "libs_ok E"
    and dev: "devices w = d # ds"
    and row: "select_values (tkv w) ''config'' (yubikey_record_name (serial d)) = PStr s # others"
    and js: "json_loads E s
               = Some (yubikey_record E slot challenge salt (seal E ykey nk nn) (seal E ykey vk vn))"
    and hmac: "calculate_hmac_sha1 d slot challenge = Some resp"
    and kdf: "argon2id_kdf E (int KEY_SIZE) resp salt OPSLIMIT_SENSITIVE MEMLIMIT_SENSITIVE
                = Some ykey"
    and ksz: "length ykey = KEY_SIZE"
    and slot: "slot = 1 \<or> slot = 2"
  shows "fst (get_keys_by_yubikey E w) = Inr (nk, vk)"
proof -
  let ?cfg = "PDict [(''slot'', PInt slot),
                         (''challenge'', PBytes challenge),
                         (''salt'', PBytes salt),
                         (''keysize'', PInt (int KEY_SIZE)),
                         (''opslimit'', PInt OPSLIMIT_SENSITIVE),
                         (''memlimit'', PInt MEMLIMIT_SENSITIVE),
                         (''name_key'', PBytes (seal E ykey nk nn)),
                         (''value_key'', PBytes (seal E ykey vk vn))]"
  have kek: "fst (yubikey_kek E d ?cfg w0) = Inr ykey" for w0
    using hmac kdf slot
    by (auto simp: yubikey_kek_def and_then_def dict_getitem_def as_bytes_def as_int_def
        SLOT_def io_bind_def io_lift_def get_yubikey_decrypt_key_def log_event_def)
  have pair: "decrypt_key_pair E ykey ?cfg = Inr (nk, vk)"
    using libs
    by (simp add: decrypt_key_pair_def and_then_def dict_getitem_def as_bytes_def
        box_decrypt_def libs_ok_def)
  let ?w1 = "w\<lparr>trace := trace w @ [Connect (PARAMETER_DB w), ListDevices]\<rparr>"
  obtain w2 where k2: "yubikey_kek E d ?cfg ?w1 = (Inr ykey, w2)"
    using kek [of ?w1] by (cases "yubikey_kek E d ?cfg ?w1") auto
  show ?thesis
    using row js ksz dev pair k2 decode_fields_yubikey_record [OF libs]
    by (simp add: get_keys_by_yubikey_def io_bind_def SqliteKV_init_def log_event_def
        io_return_def kv_getitem_def py_json_loads_def io_lift_def SecretBox_def
        first_device_def)
qed

lemma demo_kdf_bytes:
  "argon2id_kdf demo_ext (int KEY_SIZE) b demo_salt OPSLIMIT_SENSITIVE MEMLIMIT_SENSITIVE
   = Some (the (argon2id_kdf demo_ext (int KEY_SIZE) b demo_salt
                  OPSLIMIT_SENSITIVE MEMLIMIT_SENSITIVE))"
  by (simp add: demo_ext_def demo_kdf_def KEY_SIZE_def SALTBYTES_def demo_salt_def)

section \<open>Registering a second unlock method\<close>

text \<open>
  Claim C2. Let the store be unlockable by password: \<^verbatim>\<open>get_keys_by_password\<close> returns the keys
  \<open>(nk, vk)\<close> for the lines the operator types. After a \<^verbatim>\<open>register_keyring\<close> that returns,
  \<^verbatim>\<open>get_keys_by_keyring\<close> returns the same \<open>(nk, vk)\<close>, \<^verbatim>\<open>get_keys_by_password\<close> on the same typed
  lines still returns \<open>(nk, vk)\<close>, and \<^verbatim>\<open>__getitem__\<close> of every store on a table other than
  the config table gives for every name what it gave before. The same holds after a
  \<^verbatim>\<open>register_yubikey\<close> that returns, for \<^verbatim>\<open>get_keys_by_yubikey\<close> with the same device attached.
  The record written must parse back from its JSON text.
\<close>

theorem register_keeps_keys:
  assumes libs: "libs_ok E"
    and keys: "get_keys_by_password E None w = (Inr (nk, vk), w1)"
  shows "(register_keyring E key nn vn w = (Inr (), w') \<and>
          json_roundtrip E (keyring_record E (seal E key nk nn) (seal E key vk vn)) \<longrightarrow>
            fst (get_keys_by_keyring E w') = Inr (nk, vk) \<and>
            fst (get_keys_by_password E None (w'\<lparr>tty := tty w\<rparr>)) = Inr (nk, vk) \<and>
            (\<forall>ps name. table (kv ps) \<noteq> ''config'' \<longrightarrow>
               fst (ps_getitem E ps name w') = fst (ps_getitem E ps name w))) \<and>
         (register_yubikey E slot challenge salt nn vn w = (Inr (), w'') \<and>
          (slot = 1 \<or> slot = 2) \<and> devices w = d # ds \<and>
          calculate_hmac_sha1 d slot challenge = Some resp \<and>
          argon2id_kdf E (int KEY_SIZE) resp salt OPSLIMIT_SENSITIVE MEMLIMIT_SENSITIVE
            = Some ykey \<and>
          json_roundtrip E
            (yubikey_record E slot challenge salt (seal E ykey nk nn) (seal E ykey vk vn)) \<longrightarrow>
            fst (get_keys_by_yubikey E w'') = Inr (nk, vk) \<and>
            fst (get_keys_by_password E None (w''\<lparr>tty := tty w\<rparr>)) = Inr (nk, vk) \<and>
            (\<forall>ps name. table (kv ps) \<noteq> ''config'' \<longrightarrow>
               fst (ps_getitem E ps name w'') = fst (ps_getitem E ps name w)))"
proof (intro conjI impI)
  note fr = get_keys_by_password_frame [OF keys]
  have rows1: "tkv w1 = tkv w" and dev1: "devices w1 = devices w"
    by (subst fr, simp)+
  have pw0: "fst (get_keys_by_password E None w) = Inr (nk, vk)"
    using keys by simp
  {
    assume h: "register_keyring E key nn vn w = (Inr (), w') \<and>
          json_roundtrip E (keyring_record E (seal E key nk nn) (seal E key vk vn))"
    then have reg: "register_keyring E key nn vn w = (Inr (), w')" by simp
    from reg keys obtain s1 s2 where
      ksz: "length key = KEY_SIZE" and usable: "keyring_usable w1" and
      s1: "json_dumps E (keyring_record E (seal E key nk nn) (seal E key vk vn)) = Some s1" and
      w': "w' = w1\<lparr>tkv := upsert (upsert (tkv w1) ''config'' ''keyring'' (PStr s1))
                         ''config'' ''default-open-method'' (PStr s2),
               keyring_entry := Some (b64encode E key),
               trace := trace w1 @ [Connect (PARAMETER_DB w1), KeyringSet]\<rparr>"
      by (rule register_keyring_success)
    from h s1 have l1: "json_loads E s1
        = Some (keyring_record E (seal E key nk nn) (seal E key vk vn))"
      by (simp add: json_roundtrip_def)
    obtain others where
      "select_values (upsert (tkv w1) ''config'' ''keyring'' (PStr s1)) ''config'' ''keyring''
         = PStr s1 # others"
      using select_upsert_same by blast
    then have row: "select_values (tkv w') ''config'' ''keyring'' = PStr s1 # others"
      by (simp add: w' select_upsert_other)
    show "fst (get_keys_by_keyring E w') = Inr (nk, vk)"
      by (rule unlock_keyring_record [OF libs row l1 _ _ ksz]) (simp_all add: w' usable)
    have "select_values (tkv (w'\<lparr>tty := tty w\<rparr>)) ''config'' ''password''
            = select_values (tkv w) ''config'' ''password''"
      by (simp add: w' rows1 select_upsert_other)
    then have "fst (get_keys_by_password E None (w'\<lparr>tty := tty w\<rparr>))
                 = fst (get_keys_by_password E None w)"
      by (rule get_keys_by_password_cong) simp
    with pw0 show "fst (get_keys_by_password E None (w'\<lparr>tty := tty w\<rparr>)) = Inr (nk, vk)"
      by simp
    show "\<forall>ps name. table (kv ps) \<noteq> ''config'' \<longrightarrow>
               fst (ps_getitem E ps name w') = fst (ps_getitem E ps name w)"
    proof (intro allI impI)
      fix ps :: ParameterStore and name
      assume t: "table (kv ps) \<noteq> ''config''"
      show "fst (ps_getitem E ps name w') = fst (ps_getitem E ps name w)"
        by (rule ps_getitem_cong) (use t in \<open>simp add: w' rows1 select_upsert_other\<close>)
    qed
  }
  {
    assume h: "register_yubikey E slot challenge salt nn vn w = (Inr (), w'') \<and>
          (slot = 1 \<or> slot = 2) \<and> devices w = d # ds \<and>
          calculate_hmac_sha1 d slot challenge = Some resp \<and>
          argon2id_kdf E (int KEY_SIZE) resp salt OPSLIMIT_SENSITIVE MEMLIMIT_SENSITIVE
            = Some ykey \<and>
          json_roundtrip E
            (yubikey_record E slot challenge salt (seal E ykey nk nn) (seal E ykey vk vn))"
    then have reg: "register_yubikey E slot challenge salt nn vn w = (Inr (), w'')" by simp
    from reg keys obtain d' ds' resp' ykey' s1 s2 where
      d': "devices w1 = d' # ds'" and
      r': "calculate_hmac_sha1 d' slot challenge = Some resp'" and
      k': "argon2id_kdf E (int KEY_SIZE) resp' salt OPSLIMIT_SENSITIVE MEMLIMIT_SENSITIVE
             = Some ykey'" and
      ksz: "length ykey' = KEY_SIZE" and
      s1: "json_dumps E (yubikey_record E slot challenge salt (seal E ykey' nk nn)
             (seal E ykey' vk vn)) = Some s1" and
      w'': "w'' = w1\<lparr>tkv := upsert (upsert (tkv w1) ''config'' (yubikey_record_name (serial d'))
                                  (PStr s1)) ''config'' ''default-open-method'' (PStr s2),
               trace := trace w1 @ [ListDevices, Challenge, Connect (PARAMETER_DB w1)]\<rparr>"
      by (rule register_yubikey_success)
    from h d' dev1 have dd: "d' = d" by simp
    with h r' have "resp' = resp" by simp
    with h k' have kk: "ykey' = ykey" by simp
    from h s1 kk have l1: "json_loads E s1
        = Some (yubikey_record E slot challenge salt (seal E ykey nk nn) (seal E ykey vk vn))"
      by (simp add: json_roundtrip_def)
    have ne: "yubikey_record_name (serial d) \<noteq> ''default-open-method''"
      "yubikey_record_name (serial d) \<noteq> ''password''"
      by (simp_all add: yubikey_record_name_def)
    obtain others where
      "select_values (upsert (tkv w1) ''config'' (yubikey_record_name (serial d)) (PStr s1))
         ''config'' (yubikey_record_name (serial d)) = PStr s1 # others"
      using select_upsert_same by blast
    then have row: "select_values (tkv w'') ''config'' (yubikey_record_name (serial d))
                      = PStr s1 # others"
      using ne by (simp add: w'' dd select_upsert_other)
    have dev: "devices w'' = d # ds"
      using h by (simp add: w'' dev1)
    from h have hm: "calculate_hmac_sha1 d slot challenge = Some resp"
      and kd: "argon2id_kdf E (int KEY_SIZE) resp salt OPSLIMIT_SENSITIVE MEMLIMIT_SENSITIVE
            = Some ykey"
      and sl: "slot = 1 \<or> slot = 2"
      by simp_all
    from ksz kk have ksz': "length ykey = KEY_SIZE" by simp
    show "fst (get_keys_by_yubikey E w'') = Inr (nk, vk)"
      by (rule unlock_yubikey_record [OF libs dev row l1 hm kd ksz' sl])
    have "select_values (tkv (w''\<lparr>tty := tty w\<rparr>)) ''config'' ''password''
            = select_values (tkv w) ''config'' ''password''"
      using ne by (simp add: w'' dd rows1 select_upsert_other)
    then have "fst (get_keys_by_password E None (w''\<lparr>tty := tty w\<rparr>))
                 = fst (get_keys_by_password E None w)"
      by (rule get_keys_by_password_cong) simp
    with pw0 show "fst (get_keys_by_password E None (w''\<lparr>tty := tty w\<rparr>)) = Inr (nk, vk)"
      by simp
    show "\<forall>ps name. table (kv ps) \<noteq> ''config'' \<longrightarrow>
               fst (ps_getitem E ps name w'') = fst (ps_getitem E ps name w)"
    proof (intro allI impI)
      fix ps :: ParameterStore and name
      assume t: "table (kv ps) \<noteq> ''config''"
      show "fst (ps_getitem E ps name w'') = fst (ps_getitem E ps name w)"
        by (rule ps_getitem_cong) (use t in \<open>simp add: w'' rows1 select_upsert_other\<close>)
    qed
  }
qed

theorem register_keeps_keys_witness:
  "fst (get_keys_by_password demo_ext None demo_initialized)
     = Inr (name_key demo_store, value_key demo_store) \<and>
   fst (register_keyring demo_ext demo_wrap_key demo_nonce demo_nonce demo_initialized) = Inr () \<and>
   fst (get_keys_by_keyring demo_ext
          (snd (register_keyring demo_ext demo_wrap_key demo_nonce demo_nonce demo_initialized)))
     = Inr (name_key demo_store, value_key demo_store) \<and>
   fst (get_keys_by_password demo_ext None
          ((snd (register_keyring demo_ext demo_wrap_key demo_nonce demo_nonce demo_initialized))
             \<lparr>tty := tty demo_initialized\<rparr>))
     = Inr (name_key demo_store, value_key demo_store) \<and>
   fst (register_yubikey demo_ext 2 demo_challenge demo_salt demo_nonce demo_nonce
          demo_initialized) = Inr () \<and>
   fst (get_keys_by_yubikey demo_ext
          (snd (register_yubikey demo_ext 2 demo_challenge demo_salt demo_nonce demo_nonce
                  demo_initialized)))
     = Inr (name_key demo_store, value_key demo_store)"
proof -
  let ?nk = "name_key demo_store" and ?vk = "value_key demo_store"
  let ?wk = "snd (register_keyring demo_ext demo_wrap_key demo_nonce demo_nonce demo_initialized)"
  let ?wy = "snd (register_yubikey demo_ext 2 demo_challenge demo_salt demo_nonce demo_nonce
                  demo_initialized)"
  let ?d = "hd (devices demo_initialized)"
  let ?ykey = "the (argon2id_kdf demo_ext (int KEY_SIZE) (rev demo_challenge) demo_salt
                  OPSLIMIT_SENSITIVE MEMLIMIT_SENSITIVE)"
  have k0: "fst (get_keys_by_password demo_ext None demo_initialized) = Inr (?nk, ?vk)"
    by code_simp
  then have keys: "get_keys_by_password demo_ext None demo_initialized
                     = (Inr (?nk, ?vk), snd (get_keys_by_password demo_ext None demo_initialized))"
    by (simp add: prod_eq_iff)
  have rk0: "fst (register_keyring demo_ext demo_wrap_key demo_nonce demo_nonce demo_initialized)
               = Inr ()"
    by code_simp
  then have rk: "register_keyring demo_ext demo_wrap_key demo_nonce demo_nonce demo_initialized
                   = (Inr (), ?wk)"
    by (simp add: prod_eq_iff)
  have jk: "json_roundtrip demo_ext
              (keyring_record demo_ext (seal demo_ext demo_wrap_key ?nk demo_nonce)
                 (seal demo_ext demo_wrap_key ?vk demo_nonce))"
    by code_simp
  have ry0: "fst (register_yubikey demo_ext 2 demo_challenge demo_salt demo_nonce demo_nonce
                    demo_initialized) = Inr ()"
    by code_simp
  then have ry: "register_yubikey demo_ext 2 demo_challenge demo_salt demo_nonce demo_nonce
                   demo_initialized = (Inr (), ?wy)"
    by (simp add: prod_eq_iff)
  have dv: "devices demo_initialized = ?d # []"
    by (simp add: demo_initialized_def demo_world_def)
  have hm: "calculate_hmac_sha1 ?d 2 demo_challenge = Some (rev demo_challenge)"
    by (simp add: demo_initialized_def demo_world_def)
  have jy: "json_roundtrip demo_ext
              (yubikey_record demo_ext 2 demo_challenge demo_salt
                 (seal demo_ext ?ykey ?nk demo_nonce) (seal demo_ext ?ykey ?vk demo_nonce))"
    by code_simp
  note inst = register_keeps_keys [OF demo_libs_ok keys, where key = demo_wrap_key
      and nn = demo_nonce and vn = demo_nonce and w' = "?wk" and slot = 2
      and challenge = demo_challenge and salt = demo_salt and w'' = "?wy" and d = "?d"
      and ds = "[]" and resp = "rev demo_challenge" and ykey = "?ykey"]
  from inst rk jk have a: "fst (get_keys_by_keyring demo_ext ?wk) = Inr (?nk, ?vk) \<and>
      fst (get_keys_by_password demo_ext None (?wk\<lparr>tty := tty demo_initialized\<rparr>))
        = Inr (?nk, ?vk)"
    by blast
  from inst ry dv hm jy demo_kdf_bytes [of "rev demo_challenge"]
  have b: "fst (get_keys_by_yubikey demo_ext ?wy) = Inr (?nk, ?vk)"
    by blast
  from k0 rk0 ry0 a b show ?thesis by blast
qed

section \<open>A registration that fails\<close>






section \<open>Enumerating the secrets\<close>






















end
